theory Spec2Isabelle
  imports Complex_Main "HOL-Library.Word" "HOL-Library.Log_Nat"
begin

section \<open>JavaScript values read and written by the proxy\<close>

text \<open>
  The repository holds two variants of one Express service, both in a single file each:
  \<^item> profile A, \<^verbatim>\<open>src/unnamed/part_000\<close>: the DashScope CosyVoice client (bearer header,
    60 s timer, \<^verbatim>\<open>isSettled\<close> latch, \<^verbatim>\<open>try/catch\<close> around the message parser, a
    \<^verbatim>\<open>close\<close> listener);
  \<^item> profile B, \<^verbatim>\<open>src/server.js\<close>: the NLS gateway client (token in the URL, 30 s timer,
    a token cache, no latch variable, no \<^verbatim>\<open>try/catch\<close>, no \<^verbatim>\<open>close\<close> listener).

  A \<^verbatim>\<open>Buffer\<close> is a list of bytes. A JavaScript string is a list of code units; only
  its length, its emptiness and equality with ASCII literals are ever inspected.
\<close>

type_synonym buffer = "8 word list"

datatype json =
    JNull
  | JBool bool
  | JNum rat
  | JStr string
  | JArr "json list"
  | JObj "(string \<times> json) list"

text \<open>A JavaScript value that came out of JSON, or \<^verbatim>\<open>undefined\<close> (\<open>None\<close>).\<close>

type_synonym jsval = "json option"

text \<open>ToBoolean, as used by \<^verbatim>\<open>!x\<close>, \<^verbatim>\<open>x || y\<close> and \<^verbatim>\<open>x && y\<close>.\<close>

fun truthy :: "jsval \<Rightarrow> bool" where
  "truthy None = False"
| "truthy (Some JNull) = False"
| "truthy (Some (JBool b)) = b"
| "truthy (Some (JNum n)) = (n \<noteq> 0)"
| "truthy (Some (JStr s)) = (s \<noteq> [])"
| "truthy (Some (JArr xs)) = True"
| "truthy (Some (JObj kvs)) = True"

text \<open>\<^verbatim>\<open>a || b\<close>.\<close>

definition js_or :: "jsval \<Rightarrow> jsval \<Rightarrow> jsval" where
  "js_or a b = (if truthy a then a else b)"

text \<open>
  \<^verbatim>\<open>v.k\<close> for a value \<open>v\<close> that is neither \<^verbatim>\<open>null\<close> nor \<^verbatim>\<open>undefined\<close> and a key
  \<open>k\<close> that no prototype defines (the program reads \<^verbatim>\<open>header\<close>, \<^verbatim>\<open>event\<close>,
  \<^verbatim>\<open>name\<close>, \<^verbatim>\<open>error_message\<close>, \<^verbatim>\<open>status_message\<close>, \<^verbatim>\<open>Token\<close>, \<^verbatim>\<open>Id\<close>,
  \<^verbatim>\<open>ExpireTime\<close>, \<^verbatim>\<open>Message\<close> and the request fields): an object yields the
  binding, every other value \<^verbatim>\<open>undefined\<close>. The list of an object holds its
  properties; were a key listed twice, the first binding is the one read.
\<close>

fun js_get :: "json \<Rightarrow> string \<Rightarrow> jsval" where
  "js_get (JObj kvs) k = map_of kvs k"
| "js_get v k = None"

datatype js_exception = SyntaxError | TypeError

text \<open>
  \<^verbatim>\<open>msg.header?.k\<close>: reading \<^verbatim>\<open>header\<close> of \<^verbatim>\<open>null\<close> throws a TypeError; the optional
  chain yields \<^verbatim>\<open>undefined\<close> when \<^verbatim>\<open>msg.header\<close> is \<^verbatim>\<open>null\<close> or \<^verbatim>\<open>undefined\<close>.
\<close>

definition header_field :: "json \<Rightarrow> string \<Rightarrow> js_exception + jsval" where
  "header_field msg k =
     (case msg of
        JNull \<Rightarrow> Inl TypeError
      | _ \<Rightarrow> (case js_get msg ''header'' of
                None \<Rightarrow> Inr None
              | Some JNull \<Rightarrow> Inr None
              | Some h \<Rightarrow> Inr (js_get h k)))"

text \<open>
  An object literal as \<^verbatim>\<open>JSON.stringify\<close> serialises it: a property whose value is
  \<^verbatim>\<open>undefined\<close> is left out.
\<close>

definition obj :: "(string \<times> jsval) list \<Rightarrow> json" where
  "obj fields = JObj (List.map_filter (\<lambda>(k, v). map_option (Pair k) v) fields)"

text \<open>\<^verbatim>\<open>Buffer.concat\<close>.\<close>

definition Buffer_concat :: "buffer list \<Rightarrow> buffer" where
  "Buffer_concat chunks = concat chunks"

subsection \<open>Numbers\<close>

text \<open>
  A JavaScript number is an IEEE 754 double: a finite value (a rational), one of the
  infinities, or NaN. Negative zero is not told apart from zero: it compares and
  converts to a truth value like zero. The number in \<open>JNum\<close> is the value of a finite
  double (\<^verbatim>\<open>JSON.parse\<close> has rounded the literal already).
\<close>

datatype jsnum = Finite rat | PosInfinity | NegInfinity | NaN

text \<open>
  \<open>\<lfloor>log\<^sub>2 (p / q)\<rfloor>\<close> for positive \<open>p\<close> and \<open>q\<close>: the difference of the bit lengths,
  or one less.
\<close>

definition ilog2 :: "int \<Rightarrow> int \<Rightarrow> int" where
  "ilog2 p q =
     (let d = bitlen p - bitlen q
      in if (if 0 \<le> d then 2 ^ nat d * q \<le> p else q \<le> p * 2 ^ nat (- d)) then d else d - 1)"

text \<open>The integer nearest to \<open>n / d\<close> (\<open>d > 0\<close>), a tie going to the even one.\<close>

definition round_half_even :: "int \<Rightarrow> int \<Rightarrow> int" where
  "round_half_even n d =
     (let f = n div d; r = n mod d
      in if 2 * r < d then f else if d < 2 * r then f + 1 else if even f then f else f + 1)"

text \<open>
  Round to nearest, ties to even, of a positive rational \<open>a\<close> to the grid of doubles:
  with \<open>k = \<lfloor>log\<^sub>2 a\<rfloor>\<close> (at least \<open>-1022\<close>, where the subnormal numbers begin) the
  grid has the spacing \<open>2 ^ (k - 52)\<close>.
\<close>

definition nearest_double :: "rat \<Rightarrow> rat" where
  "nearest_double a =
     (let (p, q) = quotient_of a;
          k = max (ilog2 p q) (- 1022)
      in if k \<le> 52
         then of_int (round_half_even (p * 2 ^ nat (52 - k)) q) / 2 ^ nat (52 - k)
         else of_int (round_half_even p (q * 2 ^ nat (k - 52))) * 2 ^ nat (k - 52))"

text \<open>The double that an exact result \<open>x\<close> is rounded to; beyond the range, an infinity.\<close>

definition fl :: "rat \<Rightarrow> jsnum" where
  "fl x =
     (if x = 0 then Finite 0
      else
        (let r = nearest_double \<bar>x\<bar>
         in if 2 ^ 1024 \<le> r then (if 0 < x then PosInfinity else NegInfinity)
            else Finite (if 0 < x then r else - r)))"

text \<open>\<^verbatim>\<open>a * b\<close> and \<^verbatim>\<open>a - b\<close> on numbers.\<close>

fun js_times :: "jsnum \<Rightarrow> jsnum \<Rightarrow> jsnum" where
  "js_times NaN b = NaN"
| "js_times a NaN = NaN"
| "js_times (Finite x) (Finite y) = fl (x * y)"
| "js_times (Finite x) PosInfinity =
     (if x = 0 then NaN else if 0 < x then PosInfinity else NegInfinity)"
| "js_times (Finite x) NegInfinity =
     (if x = 0 then NaN else if 0 < x then NegInfinity else PosInfinity)"
| "js_times PosInfinity (Finite y) =
     (if y = 0 then NaN else if 0 < y then PosInfinity else NegInfinity)"
| "js_times NegInfinity (Finite y) =
     (if y = 0 then NaN else if 0 < y then NegInfinity else PosInfinity)"
| "js_times PosInfinity PosInfinity = PosInfinity"
| "js_times PosInfinity NegInfinity = NegInfinity"
| "js_times NegInfinity PosInfinity = NegInfinity"
| "js_times NegInfinity NegInfinity = PosInfinity"

fun js_minus :: "jsnum \<Rightarrow> jsnum \<Rightarrow> jsnum" where
  "js_minus NaN b = NaN"
| "js_minus a NaN = NaN"
| "js_minus (Finite x) (Finite y) = fl (x - y)"
| "js_minus (Finite x) PosInfinity = NegInfinity"
| "js_minus (Finite x) NegInfinity = PosInfinity"
| "js_minus PosInfinity PosInfinity = NaN"
| "js_minus PosInfinity b = PosInfinity"
| "js_minus NegInfinity NegInfinity = NaN"
| "js_minus NegInfinity b = NegInfinity"

text \<open>\<^verbatim>\<open>a < b\<close> on numbers: false as soon as one side is NaN.\<close>

fun js_less :: "jsnum \<Rightarrow> jsnum \<Rightarrow> bool" where
  "js_less (Finite x) (Finite y) = (x < y)"
| "js_less (Finite x) PosInfinity = True"
| "js_less NegInfinity (Finite y) = True"
| "js_less NegInfinity PosInfinity = True"
| "js_less a b = False"

section \<open>One synthesis invocation\<close>

text \<open>
  The messages of the rejected errors are Chinese text and template strings; each is
  one constructor, with the values interpolated into it as arguments.
\<close>

datatype err_message =
    Supplied json  \<comment> \<open>the truthy \<^verbatim>\<open>error_message\<close> / \<^verbatim>\<open>status_message\<close> of the header\<close>
  | Generic        \<comment> \<open>the literal fallback "speech synthesis failed"\<close>

datatype reason_text =
    ReasonText string  \<comment> \<open>\<^verbatim>\<open>reason.toString()\<close>, non-empty\<close>
  | ReasonUnknown      \<comment> \<open>the literal fallback "unknown"\<close>

datatype failure =
    MissingApiKey                       \<comment> \<open>A: no apikey argument and no DASHSCOPE_API_KEY\<close>
  | TimeoutA                            \<comment> \<open>A: "WebSocket timeout (60 s), check DASHSCOPE_API_KEY"\<close>
  | TimeoutB                            \<comment> \<open>B: "WebSocket timeout, check the configuration"\<close>
  | TaskFailed err_message              \<comment> \<open>\<^verbatim>\<open>new Error(errMsg)\<close>\<close>
  | WebSocketError string               \<comment> \<open>A: "WebSocket error: " followed by \<^verbatim>\<open>err.message\<close>\<close>
  | RawError string                     \<comment> \<open>B: \<^verbatim>\<open>reject(err)\<close>, the error object itself\<close>
  | UnexpectedClose nat reason_text     \<comment> \<open>A: "WebSocket closed unexpectedly, code, reason"\<close>

text \<open>
  The promise of \<^verbatim>\<open>new Promise((resolve, reject) => ...)\<close>. By the language's
  semantics \<^verbatim>\<open>resolve\<close> and \<^verbatim>\<open>reject\<close> act on a pending promise only.
\<close>

datatype settlement = Pending | Resolved buffer | Rejected failure

text \<open>What \<^verbatim>\<open>new WebSocket\<close> was called with.\<close>

datatype ws_target =
    DashScopeWs jsval  \<comment> \<open>A: fixed URL, header \<^verbatim>\<open>Authorization: bearer ${apiKey}\<close>\<close>
  | NlsGatewayWs jsval \<comment> \<open>B: the gateway URL ending in \<^verbatim>\<open>?token=${token}\<close>\<close>

text \<open>
  The variables an invocation closes over, and what it has done to the outside:
  \<open>connection\<close> is \<open>None\<close> until \<^verbatim>\<open>new WebSocket\<close> ran (then the listeners are
  registered too); \<open>timer\<close> holds the delay of \<^verbatim>\<open>setTimeout\<close> while the timeout is
  armed and \<open>None\<close> before it is set, after \<^verbatim>\<open>clearTimeout\<close>, and once it has fired;
  \<open>sent\<close> are the arguments of \<^verbatim>\<open>ws.send\<close> in call order (\<^verbatim>\<open>ws.send\<close>,
  \<^verbatim>\<open>ws.close\<close> and \<^verbatim>\<open>ws.terminate\<close> are taken to return without throwing, whatever
  the state of the socket; \<^verbatim>\<open>console\<close> output is left out but for the warning of the
  \<^verbatim>\<open>catch\<close> block); \<open>settle_calls\<close> counts the
  calls of \<^verbatim>\<open>resolve\<close> and \<^verbatim>\<open>reject\<close>, whether or not they took effect. Profile B
  has no \<^verbatim>\<open>isSettled\<close> variable and leaves the field alone.
\<close>

record session =
  promise :: settlement
  settle_calls :: nat
  isSettled :: bool
  connection :: "ws_target option"
  timer :: "nat option"
  taskId :: string
  ids_drawn :: nat
  audioChunks :: "buffer list"
  sent :: "json list"
  close_calls :: nat
  terminate_calls :: nat
  warnings :: nat

text \<open>
  What the program takes from its surroundings: \<^verbatim>\<open>JSON.parse(data.toString())\<close>
  (\<open>None\<close> when it throws a SyntaxError), ToNumber on a string, an array or an object,
  the successive results of
  \<^verbatim>\<open>crypto.randomBytes(16).toString('hex')\<close>, and the environment variables.
\<close>

record env =
  json_parse :: "buffer \<Rightarrow> json option"
  ToNumber :: "json \<Rightarrow> jsnum"
  randomHex :: "nat \<Rightarrow> string"
  DASHSCOPE_API_KEY :: "string option"
  ALIYUN_APPKEY :: "string option"

text \<open>The arguments of \<^verbatim>\<open>synthesizeSpeech\<close> that its listeners read.\<close>

record request =
  req_text :: jsval
  req_voice :: jsval
  req_model :: jsval
  req_format :: jsval

text \<open>The events the \<^verbatim>\<open>ws\<close> socket and the timer deliver to the listeners.\<close>

datatype event =
    Open
  | Message buffer bool        \<comment> \<open>\<^verbatim>\<open>(data, isBinary)\<close>\<close>
  | Error string               \<comment> \<open>\<^verbatim>\<open>err.message\<close>\<close>
  | Close nat "string option"  \<comment> \<open>\<^verbatim>\<open>(code, reason?.toString())\<close>\<close>
  | TimerFired

definition new_session :: session where
  "new_session =
     \<lparr>promise = Pending, settle_calls = 0, isSettled = False, connection = None,
      timer = None, taskId = [], ids_drawn = 0, audioChunks = [], sent = [],
      close_calls = 0, terminate_calls = 0, warnings = 0\<rparr>"

definition resolve :: "buffer \<Rightarrow> session \<Rightarrow> session" where
  "resolve v s =
     s\<lparr>promise := (if promise s = Pending then Resolved v else promise s),
       settle_calls := settle_calls s + 1\<rparr>"

definition reject :: "failure \<Rightarrow> session \<Rightarrow> session" where
  "reject e s =
     s\<lparr>promise := (if promise s = Pending then Rejected e else promise s),
       settle_calls := settle_calls s + 1\<rparr>"

definition clearTimeout :: "session \<Rightarrow> session" where
  "clearTimeout s = s\<lparr>timer := None\<rparr>"

definition ws_close :: "session \<Rightarrow> session" where
  "ws_close s = s\<lparr>close_calls := close_calls s + 1\<rparr>"

definition ws_terminate :: "session \<Rightarrow> session" where
  "ws_terminate s = s\<lparr>terminate_calls := terminate_calls s + 1\<rparr>"

definition ws_send :: "json \<Rightarrow> session \<Rightarrow> session" where
  "ws_send m s = s\<lparr>sent := sent s @ [m]\<rparr>"

definition generateId :: "env \<Rightarrow> session \<Rightarrow> string \<times> session" where
  "generateId E s = (randomHex E (ids_drawn s), s\<lparr>ids_drawn := ids_drawn s + 1\<rparr>)"

subsection \<open>Profile A: DashScope\<close>

text \<open>
  The executor of the promise up to the registration of the listeners. Without a key
  it rejects and returns before the socket, the latch and the timer exist.
\<close>

definition synthesizeSpeech_A :: "env \<Rightarrow> jsval \<Rightarrow> session" where
  "synthesizeSpeech_A E userApiKey =
     (let apiKey = js_or userApiKey (map_option JStr (DASHSCOPE_API_KEY E)) in
      if \<not> truthy apiKey then reject MissingApiKey new_session
      else
        (let (tid, s) = generateId E new_session in
         s\<lparr>taskId := tid, connection := Some (DashScopeWs apiKey), timer := Some 60000\<rparr>))"

definition runTask :: "request \<Rightarrow> string \<Rightarrow> json" where
  "runTask R tid =
     obj [(''header'', Some (obj
            [(''action'', Some (JStr ''run-task'')),
             (''task_id'', Some (JStr tid)),
             (''streaming'', Some (JStr ''duplex''))])),
          (''payload'', Some (obj
            [(''task_group'', Some (JStr ''audio'')),
             (''task'', Some (JStr ''tts'')),
             (''function'', Some (JStr ''SpeechSynthesizer'')),
             (''model'', js_or (req_model R) (Some (JStr ''cosyvoice-v3-flash''))),
             (''parameters'', Some (obj
               [(''text_type'', Some (JStr ''PlainText'')),
                (''voice'', js_or (req_voice R) (Some (JStr ''longanyang''))),
                (''format'', js_or (req_format R) (Some (JStr ''mp3''))),
                (''sample_rate'', Some (JNum 22050)),
                (''volume'', Some (JNum 50)),
                (''rate'', Some (JNum 1)),
                (''pitch'', Some (JNum 1))])),
             (''input'', Some (obj []))]))]"

definition continueTask :: "request \<Rightarrow> string \<Rightarrow> json" where
  "continueTask R tid =
     obj [(''header'', Some (obj
            [(''action'', Some (JStr ''continue-task'')),
             (''task_id'', Some (JStr tid)),
             (''streaming'', Some (JStr ''duplex''))])),
          (''payload'', Some (obj
            [(''input'', Some (obj [(''text'', req_text R)]))]))]"

definition finishTask :: "string \<Rightarrow> json" where
  "finishTask tid =
     obj [(''header'', Some (obj
            [(''action'', Some (JStr ''finish-task'')),
             (''task_id'', Some (JStr tid)),
             (''streaming'', Some (JStr ''duplex''))])),
          (''payload'', Some (obj [(''input'', Some (obj []))]))]"

definition on_open_A :: "request \<Rightarrow> session \<Rightarrow> session" where
  "on_open_A R s = ws_send (runTask R (taskId s)) s"

text \<open>The \<^verbatim>\<open>catch\<close> block: \<^verbatim>\<open>console.warn\<close>, nothing else.\<close>

definition warn :: "session \<Rightarrow> session" where
  "warn s = s\<lparr>warnings := warnings s + 1\<rparr>"

text \<open>
  \<^verbatim>\<open>msg.header?.error_message || generic\<close> (profile B: \<^verbatim>\<open>status_message\<close>), read
  where \<^verbatim>\<open>msg.header?.event\<close> has been read already, so \<open>msg\<close> is not \<^verbatim>\<open>null\<close>.
\<close>

definition error_text :: "json \<Rightarrow> string \<Rightarrow> err_message" where
  "error_text msg k =
     (case header_field msg k of
        Inr (Some v) \<Rightarrow> (if truthy (Some v) then Supplied v else Generic)
      | _ \<Rightarrow> Generic)"

definition on_message_A :: "env \<Rightarrow> request \<Rightarrow> buffer \<Rightarrow> bool \<Rightarrow> session \<Rightarrow> session" where
  "on_message_A E R data isBinary s =
     (if isBinary then s\<lparr>audioChunks := audioChunks s @ [data]\<rparr>
      else
        (case json_parse E data of
           None \<Rightarrow> warn s
         | Some msg \<Rightarrow>
             (case header_field msg ''event'' of
                Inl ex \<Rightarrow> warn s
              | Inr event \<Rightarrow>
                  if event = Some (JStr ''task-started'') then
                    ws_send (finishTask (taskId s)) (ws_send (continueTask R (taskId s)) s)
                  else if event = Some (JStr ''task-finished'') then
                    (let s1 = ws_close (clearTimeout s) in
                     if \<not> isSettled s1
                     then resolve (Buffer_concat (audioChunks s1)) (s1\<lparr>isSettled := True\<rparr>)
                     else s1)
                  else if event = Some (JStr ''task-failed'') then
                    (let errMsg = error_text msg ''error_message'';
                         s1 = ws_close (clearTimeout s) in
                     if \<not> isSettled s1
                     then reject (TaskFailed errMsg) (s1\<lparr>isSettled := True\<rparr>)
                     else s1)
                  else s)))"

definition on_error_A :: "string \<Rightarrow> session \<Rightarrow> session" where
  "on_error_A err_message s =
     (let s1 = clearTimeout s in
      if \<not> isSettled s1
      then reject (WebSocketError err_message) (s1\<lparr>isSettled := True\<rparr>)
      else s1)"

definition close_reason :: "string option \<Rightarrow> reason_text" where
  "close_reason reason =
     (case reason of
        None \<Rightarrow> ReasonUnknown
      | Some r \<Rightarrow> (if r = [] then ReasonUnknown else ReasonText r))"

definition on_close_A :: "nat \<Rightarrow> string option \<Rightarrow> session \<Rightarrow> session" where
  "on_close_A code reason s =
     (let s1 = clearTimeout s in
      if \<not> isSettled s1
      then reject (UnexpectedClose code (close_reason reason)) (s1\<lparr>isSettled := True\<rparr>)
      else s1)"

definition on_timeout_A :: "session \<Rightarrow> session" where
  "on_timeout_A s =
     (if \<not> isSettled s
      then reject TimeoutA (ws_terminate (s\<lparr>isSettled := True\<rparr>))
      else s)"

text \<open>
  The event loop hands one event to its listener. A session without a socket has no
  listeners; a timer that was cleared or has fired does not fire.
\<close>

fun deliver_A :: "env \<Rightarrow> request \<Rightarrow> session \<Rightarrow> event \<Rightarrow> session" where
  "deliver_A E R s Open = (if connection s = None then s else on_open_A R s)"
| "deliver_A E R s (Message data isBinary) =
     (if connection s = None then s else on_message_A E R data isBinary s)"
| "deliver_A E R s (Error m) = (if connection s = None then s else on_error_A m s)"
| "deliver_A E R s (Close code reason) =
     (if connection s = None then s else on_close_A code reason s)"
| "deliver_A E R s TimerFired =
     (case timer s of None \<Rightarrow> s | Some d \<Rightarrow> on_timeout_A (s\<lparr>timer := None\<rparr>))"

definition run_A :: "env \<Rightarrow> request \<Rightarrow> session \<Rightarrow> event list \<Rightarrow> session" where
  "run_A E R s evs = foldl (deliver_A E R) s evs"

subsection \<open>Profile B: NLS gateway\<close>

text \<open>
  The executor of profile B: socket, task id, timer. Its message listener parses
  outside any \<^verbatim>\<open>try\<close>, so an exception leaves the listener uncaught (\<open>Inl\<close>); the
  run of a session ends there.
\<close>

definition synthesizeSpeech_B :: "env \<Rightarrow> jsval \<Rightarrow> session" where
  "synthesizeSpeech_B E token =
     (let s0 = new_session\<lparr>connection := Some (NlsGatewayWs token)\<rparr>;
          (tid, s) = generateId E s0 in
      s\<lparr>taskId := tid, timer := Some 30000\<rparr>)"

definition nls_header :: "env \<Rightarrow> string \<Rightarrow> string \<Rightarrow> string \<Rightarrow> json" where
  "nls_header E mid tid nm =
     obj [(''message_id'', Some (JStr mid)),
          (''task_id'', Some (JStr tid)),
          (''namespace'', Some (JStr ''FlowingSpeechSynthesizer'')),
          (''name'', Some (JStr nm)),
          (''appkey'', map_option JStr (ALIYUN_APPKEY E))]"

definition StartSynthesis :: "env \<Rightarrow> request \<Rightarrow> string \<Rightarrow> string \<Rightarrow> json" where
  "StartSynthesis E R mid tid =
     obj [(''header'', Some (nls_header E mid tid ''StartSynthesis'')),
          (''payload'', Some (obj
            [(''voice'', js_or (req_voice R) (Some (JStr ''longxiaochun''))),
             (''format'', js_or (req_format R) (Some (JStr ''mp3''))),
             (''sample_rate'', Some (JNum 16000)),
             (''volume'', Some (JNum 50)),
             (''speech_rate'', Some (JNum 0)),
             (''pitch_rate'', Some (JNum 0))]))]"

definition RunSynthesis :: "env \<Rightarrow> request \<Rightarrow> string \<Rightarrow> string \<Rightarrow> json" where
  "RunSynthesis E R mid tid =
     obj [(''header'', Some (nls_header E mid tid ''RunSynthesis'')),
          (''payload'', Some (obj [(''text'', req_text R)]))]"

definition StopSynthesis :: "env \<Rightarrow> string \<Rightarrow> string \<Rightarrow> json" where
  "StopSynthesis E mid tid =
     obj [(''header'', Some (nls_header E mid tid ''StopSynthesis''))]"

definition on_open_B :: "env \<Rightarrow> request \<Rightarrow> session \<Rightarrow> session" where
  "on_open_B E R s =
     (let (mid, s1) = generateId E s in
      ws_send (StartSynthesis E R mid (taskId s1)) s1)"

definition on_message_B ::
  "env \<Rightarrow> request \<Rightarrow> buffer \<Rightarrow> bool \<Rightarrow> session \<Rightarrow> js_exception + session" where
  "on_message_B E R data isBinary s =
     (if isBinary then Inr (s\<lparr>audioChunks := audioChunks s @ [data]\<rparr>)
      else
        (case json_parse E data of
           None \<Rightarrow> Inl SyntaxError
         | Some msg \<Rightarrow>
             (case header_field msg ''name'' of
                Inl ex \<Rightarrow> Inl ex
              | Inr name \<Rightarrow>
                  if name = Some (JStr ''SynthesisStarted'') then
                    (let (mid1, s1) = generateId E s;
                         s2 = ws_send (RunSynthesis E R mid1 (taskId s1)) s1;
                         (mid2, s3) = generateId E s2 in
                     Inr (ws_send (StopSynthesis E mid2 (taskId s3)) s3))
                  else if name = Some (JStr ''SynthesisCompleted'') then
                    (let s1 = ws_close (clearTimeout s) in
                     Inr (resolve (Buffer_concat (audioChunks s1)) s1))
                  else if name = Some (JStr ''TaskFailed'') then
                    (let s1 = ws_close (clearTimeout s) in
                     Inr (reject (TaskFailed (error_text msg ''status_message'')) s1))
                  else Inr s)))"

definition on_error_B :: "string \<Rightarrow> session \<Rightarrow> session" where
  "on_error_B err_message s = reject (RawError err_message) (clearTimeout s)"

definition on_timeout_B :: "session \<Rightarrow> session" where
  "on_timeout_B s = reject TimeoutB (ws_terminate s)"

text \<open>Profile B registers no \<^verbatim>\<open>close\<close> listener: a close event reaches no code.\<close>

fun deliver_B :: "env \<Rightarrow> request \<Rightarrow> session \<Rightarrow> event \<Rightarrow> js_exception + session" where
  "deliver_B E R s Open = Inr (if connection s = None then s else on_open_B E R s)"
| "deliver_B E R s (Message data isBinary) =
     (if connection s = None then Inr s else on_message_B E R data isBinary s)"
| "deliver_B E R s (Error m) = Inr (if connection s = None then s else on_error_B m s)"
| "deliver_B E R s (Close code reason) = Inr s"
| "deliver_B E R s TimerFired =
     Inr (case timer s of None \<Rightarrow> s | Some d \<Rightarrow> on_timeout_B (s\<lparr>timer := None\<rparr>))"

fun run_B :: "env \<Rightarrow> request \<Rightarrow> session \<Rightarrow> event list \<Rightarrow> js_exception + session" where
  "run_B E R s [] = Inr s"
| "run_B E R s (ev # evs) =
     (case deliver_B E R s ev of
        Inl ex \<Rightarrow> Inl ex
      | Inr s' \<Rightarrow> run_B E R s' evs)"

section \<open>The token cache of profile B\<close>

text \<open>\<^verbatim>\<open>tokenCache = { id: null, expireTime: 0 }\<close>, shared by all requests.\<close>

record token_cache =
  cache_id :: jsval
  expireTime :: jsnum

definition tokenCache0 :: token_cache where
  "tokenCache0 = \<lparr>cache_id = Some JNull, expireTime = Finite 0\<rparr>"

text \<open>ToNumber of a value, for the arithmetic and the comparisons.\<close>

definition js_number :: "env \<Rightarrow> jsval \<Rightarrow> jsnum" where
  "js_number E v =
     (case v of
        None \<Rightarrow> NaN
      | Some JNull \<Rightarrow> Finite 0
      | Some (JBool b) \<Rightarrow> Finite (if b then 1 else 0)
      | Some (JNum x) \<Rightarrow> Finite x
      | Some j \<Rightarrow> ToNumber E j)"

text \<open>
  \<^verbatim>\<open>getNlsToken\<close> runs in two parts. The first, at time \<open>now\<close> (\<^verbatim>\<open>Date.now()\<close>,
  milliseconds), reads the cache: it returns the cached token, or issues the HTTPS
  request and returns a promise that is still pending. The signed request itself
  (canonical query string, HMAC-SHA1 signature) is not modelled.
\<close>

datatype token_call = Cached jsval | Requested

definition getNlsToken :: "int \<Rightarrow> token_cache \<Rightarrow> token_call" where
  "getNlsToken now c =
     (if truthy (cache_id c) \<and> js_less (Finite (of_int now)) (expireTime c)
      then Cached (cache_id c)
      else Requested)"

text \<open>
  The second part runs when the HTTPS exchange ends, with the request's \<^verbatim>\<open>error\<close>
  event or with the response's \<^verbatim>\<open>end\<close> event and the body collected so far: it
  settles the promise and, for a token, writes the cache as it is at that moment.
\<close>

datatype http_outcome = RequestError string | ResponseEnd buffer

datatype token_failure =
    RequestFailed string       \<comment> \<open>\<^verbatim>\<open>req.on('error', reject)\<close>\<close>
  | Refused json               \<comment> \<open>\<^verbatim>\<open>new Error(result.Message)\<close>, a truthy message\<close>
  | RefusedNoMessage buffer    \<comment> \<open>"getting the token failed: " followed by the body\<close>
  | ParseFailed buffer         \<comment> \<open>"parsing the token response failed: " and the body\<close>

definition refusal :: "json \<Rightarrow> buffer \<Rightarrow> token_failure" where
  "refusal result data =
     (case js_get result ''Message'' of
        None \<Rightarrow> RefusedNoMessage data
      | Some m \<Rightarrow> (if truthy (Some m) then Refused m else RefusedNoMessage data))"

definition token_response ::
  "env \<Rightarrow> http_outcome \<Rightarrow> token_cache \<Rightarrow> (token_failure + jsval) \<times> token_cache" where
  "token_response E http c =
     (case http of
        RequestError m \<Rightarrow> (Inl (RequestFailed m), c)
      | ResponseEnd data \<Rightarrow>
          (case json_parse E data of
             None \<Rightarrow> (Inl (ParseFailed data), c)
           | Some JNull \<Rightarrow> (Inl (ParseFailed data), c)
           | Some result \<Rightarrow>
               (case js_get result ''Token'' of
                  None \<Rightarrow> (Inl (refusal result data), c)
                | Some t \<Rightarrow>
                    if truthy (Some t) then
                      (Inr (js_get t ''Id''),
                       \<lparr>cache_id = js_get t ''Id'',
                        expireTime =
                          js_minus
                            (js_times (js_number E (js_get t ''ExpireTime'')) (Finite 1000))
                            (Finite 60000)\<rparr>)
                    else (Inl (refusal result data), c))))"

text \<open>
  Calls and responses as the event loop interleaves them: a call at a time, or the end
  of an exchange that is in flight. \<open>requests\<close> counts the HTTPS requests issued,
  \<open>returned\<close> lists the settlements of the promises in the order they happen.
\<close>

datatype token_event = Call int | Response http_outcome

record token_world =
  cache :: token_cache
  in_flight :: nat
  requests :: nat
  returned :: "(token_failure + jsval) list"

fun token_step :: "env \<Rightarrow> token_world \<Rightarrow> token_event \<Rightarrow> token_world" where
  "token_step E w (Call now) =
     (case getNlsToken now (cache w) of
        Cached t \<Rightarrow> w\<lparr>returned := returned w @ [Inr t]\<rparr>
      | Requested \<Rightarrow> w\<lparr>in_flight := in_flight w + 1, requests := requests w + 1\<rparr>)"
| "token_step E w (Response http) =
     (if in_flight w = 0 then w
      else
        (let (r, c) = token_response E http (cache w)
         in w\<lparr>cache := c, in_flight := in_flight w - 1, returned := returned w @ [r]\<rparr>))"

definition token_run :: "env \<Rightarrow> token_world \<Rightarrow> token_event list \<Rightarrow> token_world" where
  "token_run E w evs = foldl (token_step E) w evs"

definition token_world0 :: token_world where
  "token_world0 = \<lparr>cache = tokenCache0, in_flight = 0, requests = 0, returned = []\<rparr>"

section \<open>The route \<^verbatim>\<open>POST /api/tts\<close>\<close>










section \<open>Notions used by the properties\<close>

text \<open>The binary frames of an event sequence, in their order of arrival.\<close>

fun binary_frames :: "event list \<Rightarrow> buffer list" where
  "binary_frames [] = []"
| "binary_frames (Message data isBinary # evs) =
     (if isBinary then data # binary_frames evs else binary_frames evs)"
| "binary_frames (ev # evs) = binary_frames evs"

text \<open>
  The text frame \<open>data\<close> parses to a control message whose discriminator
  (\<^verbatim>\<open>header.event\<close> in profile A, \<^verbatim>\<open>header.name\<close> in profile B) is the string \<open>nm\<close>.
\<close>

definition announces :: "env \<Rightarrow> buffer \<Rightarrow> string \<Rightarrow> string \<Rightarrow> bool" where
  "announces E data k nm =
     (case json_parse E data of
        None \<Rightarrow> False
      | Some msg \<Rightarrow> header_field msg k = Inr (Some (JStr nm)))"

text \<open>\<^verbatim>\<open>payload.input\<close> of a message that was sent.\<close>

definition payload_input :: "json \<Rightarrow> jsval" where
  "payload_input m =
     (case js_get m ''payload'' of None \<Rightarrow> None | Some p \<Rightarrow> js_get p ''input'')"

text \<open>The settlement at the end of a run of profile B, or the exception that ended it.\<close>

definition outcome_B :: "js_exception + session \<Rightarrow> js_exception + settlement" where
  "outcome_B r = map_sum id promise r"

text \<open>
  What holds of a session of profile A once its socket exists: the latch is set exactly
  when the promise has settled, \<^verbatim>\<open>resolve\<close>/\<^verbatim>\<open>reject\<close> ran once then and never
  before, and the 60 s timer is armed exactly while the latch is open.
\<close>

definition wired_A :: "session \<Rightarrow> bool" where
  "wired_A s =
     (connection s \<noteq> None \<and>
      isSettled s = (promise s \<noteq> Pending) \<and>
      settle_calls s = (if isSettled s then 1 else 0) \<and>
      timer s = (if isSettled s then None else Some 60000))"


subsection \<open>A concrete setting for the examples\<close>

text \<open>
  The control messages the two backends send, and a parser that knows the text frames
  of the examples by a one-byte tag and throws on every other frame.
\<close>

definition control :: "string \<Rightarrow> string \<Rightarrow> (string \<times> json) list \<Rightarrow> json" where
  "control k nm others =
     JObj [(''header'', JObj ((k, JStr nm) # others)), (''payload'', JObj [])]"

definition sample_parse :: "buffer \<Rightarrow> json option" where
  "sample_parse data =
     map_of
       [([1], control ''event'' ''task-started'' []),
        ([2], control ''event'' ''task-finished'' []),
        ([3], control ''event'' ''task-failed'' [(''error_message'', JStr ''quota exceeded'')]),
        ([4], control ''event'' ''task-failed'' []),
        ([5], control ''event'' ''result-generated'' []),
        ([6], JNull),
        ([11], control ''name'' ''SynthesisStarted'' []),
        ([12], control ''name'' ''SynthesisCompleted'' []),
        ([13], control ''name'' ''TaskFailed'' [(''status_message'', JStr ''quota exceeded'')]),
        ([14], control ''name'' ''TaskFailed'' []),
        ([20], JObj [(''Token'', JObj [(''Id'', JStr ''tok-1''), (''ExpireTime'', JNum 2000)])]),
        ([21], JObj [(''Token'', JObj [(''Id'', JStr ''tok-2''), (''ExpireTime'', JNum 2600)])]),
        ([22], JObj [(''Token'', JObj [(''Id'', JStr ''tok-3''),
           (''ExpireTime'', JNum 9007199254740992)])])]
       data"

definition sample_env :: env where
  "sample_env =
     \<lparr>json_parse = sample_parse,
      ToNumber = (\<lambda>j. NaN),
      randomHex = (\<lambda>n. ''0123456789abcdef0123456789abcdef''),
      DASHSCOPE_API_KEY = Some ''sk-env'',
      ALIYUN_APPKEY = Some ''appkey''\<rparr>"

definition sample_request :: request where
  "sample_request =
     \<lparr>req_text = Some (JStr ''hello''), req_voice = None, req_model = None,
      req_format = None\<rparr>"

definition start_A :: session where
  "start_A = synthesizeSpeech_A sample_env None"

definition start_B :: session where
  "start_B = synthesizeSpeech_B sample_env (Some (JStr ''tok-1''))"

section \<open>Facts about the listeners\<close>

lemmas handler_defs =
  on_open_A_def on_message_A_def on_error_A_def on_close_A_def on_timeout_A_def
  on_open_B_def on_message_B_def on_error_B_def on_timeout_B_def
  resolve_def reject_def clearTimeout_def ws_close_def ws_terminate_def ws_send_def
  warn_def generateId_def

lemmas sample_defs =
  start_A_def start_B_def sample_env_def sample_request_def sample_parse_def control_def
  synthesizeSpeech_A_def synthesizeSpeech_B_def new_session_def js_or_def header_field_def
  error_text_def Buffer_concat_def announces_def outcome_B_def run_A_def

lemma deliver_A_promise_stable:
  "promise s \<noteq> Pending \<Longrightarrow> promise (deliver_A E R s ev) = promise s"
  by (cases ev) (auto simp: handler_defs Let_def split: option.splits sum.splits)

lemma run_A_promise_stable:
  "promise s \<noteq> Pending \<Longrightarrow> promise (run_A E R s evs) = promise s"
  unfolding run_A_def
  by (induction evs arbitrary: s) (simp_all add: deliver_A_promise_stable)

lemma run_A_append: "run_A E R s (xs @ ys) = run_A E R (run_A E R s xs) ys"
  by (simp add: run_A_def)

lemma run_A_Cons: "run_A E R s (ev # evs) = run_A E R (deliver_A E R s ev) evs"
  by (simp add: run_A_def)

lemma run_A_Nil: "run_A E R s [] = s"
  by (simp add: run_A_def)

lemma deliver_B_promise_stable:
  "promise s \<noteq> Pending \<Longrightarrow> deliver_B E R s ev = Inr s' \<Longrightarrow> promise s' = promise s"
  by (cases ev) (auto simp: handler_defs Let_def split: option.splits sum.splits if_splits)

lemma run_B_promise_stable:
  "promise s \<noteq> Pending \<Longrightarrow> run_B E R s evs = Inr s' \<Longrightarrow> promise s' = promise s"
proof (induction evs arbitrary: s)
  case Nil
  then show ?case by simp
next
  case (Cons ev evs)
  from Cons.prems(2) obtain s1 where
    step: "deliver_B E R s ev = Inr s1" and rest: "run_B E R s1 evs = Inr s'"
    by (auto split: sum.splits)
  from deliver_B_promise_stable [OF Cons.prems(1) step]
  have same: "promise s1 = promise s" .
  with Cons.prems(1) have "promise s1 \<noteq> Pending" by simp
  from Cons.IH [OF this rest] same show ?case by simp
qed

lemma run_B_append:
  "run_B E R s (xs @ ys) =
     (case run_B E R s xs of Inl ex \<Rightarrow> Inl ex | Inr s' \<Rightarrow> run_B E R s' ys)"
  by (induction xs arbitrary: s) (auto split: sum.splits)

lemma wired_A_start:
  "truthy (js_or k (map_option JStr (DASHSCOPE_API_KEY E))) \<Longrightarrow> wired_A (synthesizeSpeech_A E k)"
  by (simp add: wired_A_def synthesizeSpeech_A_def new_session_def generateId_def Let_def)

lemma wired_A_deliver: "wired_A s \<Longrightarrow> wired_A (deliver_A E R s ev)"
  by (cases ev) (auto simp: wired_A_def handler_defs Let_def split: option.splits sum.splits)

lemma wired_A_run: "wired_A s \<Longrightarrow> wired_A (run_A E R s evs)"
  unfolding run_A_def
  by (induction evs arbitrary: s) (simp_all add: wired_A_deliver)

lemma unwired_A_start:
  "\<not> truthy (js_or k (map_option JStr (DASHSCOPE_API_KEY E))) \<Longrightarrow>
   synthesizeSpeech_A E k = reject MissingApiKey new_session"
  by (simp add: synthesizeSpeech_A_def Let_def)

lemma unwired_deliver_A:
  "connection s = None \<Longrightarrow> timer s = None \<Longrightarrow> deliver_A E R s ev = s"
  by (cases ev) simp_all

lemma unwired_run_A:
  "connection s = None \<Longrightarrow> timer s = None \<Longrightarrow> run_A E R s evs = s"
  unfolding run_A_def
  by (induction evs) (simp_all add: unwired_deliver_A)

lemma unwired_A_run:
  "\<not> truthy (js_or k (map_option JStr (DASHSCOPE_API_KEY E))) \<Longrightarrow>
   run_A E R (synthesizeSpeech_A E k) evs = reject MissingApiKey new_session"
  by (simp add: unwired_A_start unwired_run_A reject_def new_session_def)


lemma settle_calls_A: "settle_calls (run_A E R (synthesizeSpeech_A E k) evs) \<le> 1"
proof (cases "truthy (js_or k (map_option JStr (DASHSCOPE_API_KEY E)))")
  case True
  from wired_A_run [OF wired_A_start [OF True]]
  show ?thesis by (simp add: wired_A_def split: if_splits)
next
  case False
  from unwired_A_run [OF False] show ?thesis
    by (simp add: reject_def new_session_def)
qed





section \<open>At most one settlement\<close>

text \<open>
  Claim C1. For every invocation of \<^verbatim>\<open>synthesizeSpeech\<close> and every sequence of events
  (completion, failure, transport error, close, timeout, in any order), the promise
  settles at most once: once it has resolved or rejected, no later event changes its
  outcome. In profile A the latch moreover lets \<^verbatim>\<open>resolve\<close>/\<^verbatim>\<open>reject\<close> run at most
  once; profile B relies on the promise, which ignores every call after the first (the
  run of profile B is considered as long as no listener has thrown).
\<close>


theorem settles_at_most_once:
  "(promise (run_A E R (synthesizeSpeech_A E k) evs) \<noteq> Pending \<longrightarrow>
      promise (run_A E R (synthesizeSpeech_A E k) (evs @ later)) =
      promise (run_A E R (synthesizeSpeech_A E k) evs)) \<and>
   settle_calls (run_A E R (synthesizeSpeech_A E k) (evs @ later)) \<le> 1 \<and>
   (\<forall>s s'. run_B E R (synthesizeSpeech_B E token) evs = Inr s \<and> promise s \<noteq> Pending \<and>
      run_B E R (synthesizeSpeech_B E token) (evs @ later) = Inr s' \<longrightarrow>
      promise s' = promise s)"
proof (intro conjI impI allI)
  assume "promise (run_A E R (synthesizeSpeech_A E k) evs) \<noteq> Pending"
  then show "promise (run_A E R (synthesizeSpeech_A E k) (evs @ later)) =
      promise (run_A E R (synthesizeSpeech_A E k) evs)"
    by (simp add: run_A_append run_A_promise_stable)
next
  show "settle_calls (run_A E R (synthesizeSpeech_A E k) (evs @ later)) \<le> 1"
    by (rule settle_calls_A)
next
  fix s s'
  assume h: "run_B E R (synthesizeSpeech_B E token) evs = Inr s \<and> promise s \<noteq> Pending \<and>
      run_B E R (synthesizeSpeech_B E token) (evs @ later) = Inr s'"
  then have "run_B E R s later = Inr s'" by (auto simp: run_B_append)
  with h show "promise s' = promise s" by (blast intro: run_B_promise_stable)
qed


theorem settles_at_most_once_witness:
  "promise (run_A sample_env sample_request start_A [Open, Message [7, 8] True, Message [2] False])
     = Resolved [7, 8] \<and>
   promise (run_A sample_env sample_request start_A
     ([Open, Message [7, 8] True, Message [2] False] @
      [Close 1000 None, Message [3] False, Error ''late'', TimerFired]))
     = Resolved [7, 8] \<and>
   settle_calls (run_A sample_env sample_request start_A
     ([Open, Message [7, 8] True, Message [2] False] @
      [Close 1000 None, Message [3] False, Error ''late'', TimerFired])) \<le> 1 \<and>
   outcome_B (run_B sample_env sample_request start_B [Open, Message [9] True, Message [12] False])
     = Inr (Resolved [9]) \<and>
   outcome_B (run_B sample_env sample_request start_B
     ([Open, Message [9] True, Message [12] False] @ [Error ''late'']))
     = Inr (Resolved [9])"
proof -
  let ?evsA = "[Open, Message [7, 8] True, Message [2] False]"
  let ?laterA = "[Close 1000 None, Message [3] False, Error ''late'', TimerFired]"
  let ?evsB = "[Open, Message [9] True, Message [12] False]"
  let ?laterB = "[Error ''late'']"
  note inst_A = settles_at_most_once [where E = sample_env and R = sample_request
      and k = None and evs = ?evsA and later = ?laterA, folded start_A_def]
  note inst_B = settles_at_most_once [where E = sample_env and R = sample_request
      and token = "Some (JStr ''tok-1'')" and evs = ?evsB and later = ?laterB,
      folded start_B_def]
  have a: "promise (run_A sample_env sample_request start_A ?evsA) = Resolved [7, 8]"
    by (simp add: sample_defs handler_defs Let_def)
  then have "promise (run_A sample_env sample_request start_A ?evsA) \<noteq> Pending"
    by (simp only: settlement.distinct not_False_eq_True)
  with inst_A a
  have a': "promise (run_A sample_env sample_request start_A (?evsA @ ?laterA)) = Resolved [7, 8]"
    by metis
  from inst_A
  have a'': "settle_calls (run_A sample_env sample_request start_A (?evsA @ ?laterA)) \<le> 1"
    by blast
  have b: "outcome_B (run_B sample_env sample_request start_B ?evsB) = Inr (Resolved [9])"
    by (simp add: sample_defs handler_defs Let_def)
  have "\<exists>s'. run_B sample_env sample_request start_B (?evsB @ ?laterB) = Inr s'"
    by (simp add: sample_defs handler_defs Let_def)
  then obtain s' where s': "run_B sample_env sample_request start_B (?evsB @ ?laterB) = Inr s'" ..
  from b obtain s where s: "run_B sample_env sample_request start_B ?evsB = Inr s"
    and ps: "promise s = Resolved [9]"
    by (cases "run_B sample_env sample_request start_B ?evsB") (simp_all add: outcome_B_def)
  from ps have "promise s \<noteq> Pending"
    by (simp only: settlement.distinct not_False_eq_True)
  with inst_B s s' have "promise s' = promise s" by blast
  with ps s'
  have b': "outcome_B (run_B sample_env sample_request start_B (?evsB @ ?laterB)) = Inr (Resolved [9])"
    by (simp only: outcome_B_def map_sum.simps)
  from a a' a'' b b' show ?thesis by (intro conjI)
qed


section \<open>The audio is the received frames, in order\<close>

lemma binary_frames_Cons: "binary_frames (ev # evs) = binary_frames [ev] @ binary_frames evs"
  by (cases ev) simp_all

lemma binary_frames_append: "binary_frames (xs @ ys) = binary_frames xs @ binary_frames ys"
proof (induction xs)
  case Nil
  show ?case by simp
next
  case (Cons ev xs)
  have "binary_frames ((ev # xs) @ ys) = binary_frames [ev] @ binary_frames (xs @ ys)"
    using binary_frames_Cons [of ev "xs @ ys"] by simp
  also have "\<dots> = binary_frames [ev] @ binary_frames xs @ binary_frames ys"
    by (simp only: Cons.IH)
  also have "\<dots> = binary_frames (ev # xs) @ binary_frames ys"
    using binary_frames_Cons [of ev xs] by simp
  finally show ?case .
qed






















section \<open>Malformed control messages\<close>

text \<open>
  Claim C3 (the code of profile B departs from it). A text frame that does not parse,
  or parses to \<^verbatim>\<open>null\<close>, is logged and otherwise ignored by profile A: the session is
  as before but for the warning; a frame that parses to anything but one of the three
  control events is ignored. In profile A only a finished or failed control event,
  a transport error, a close or the timer settles an unsettled session. Profile B
  parses outside any \<^verbatim>\<open>try\<close>: the SyntaxError (or, for \<^verbatim>\<open>null\<close>, the TypeError)
  leaves its listener uncaught.
\<close>

theorem malformed_text_frame:
  "(connection s \<noteq> None \<and> (json_parse E d = None \<or> json_parse E d = Some JNull) \<longrightarrow>
      deliver_A E R s (Message d False) = warn s) \<and>
   (json_parse E d = Some msg \<and> header_field msg ''event'' = Inr e \<and>
    e \<noteq> Some (JStr ''task-started'') \<and> e \<noteq> Some (JStr ''task-finished'') \<and>
    e \<noteq> Some (JStr ''task-failed'') \<longrightarrow>
      deliver_A E R s (Message d False) = s) \<and>
   (promise s = Pending \<and> promise (deliver_A E R s ev) \<noteq> Pending \<longrightarrow>
      (\<exists>m. ev = Message m False \<and>
         (announces E m ''event'' ''task-finished'' \<or> announces E m ''event'' ''task-failed'')) \<or>
      (\<exists>m. ev = Error m) \<or> (\<exists>c r. ev = Close c r) \<or> ev = TimerFired) \<and>
   (connection s \<noteq> None \<and> json_parse E d = None \<longrightarrow>
      deliver_B E R s (Message d False) = Inl SyntaxError) \<and>
   (connection s \<noteq> None \<and> json_parse E d = Some JNull \<longrightarrow>
      deliver_B E R s (Message d False) = Inl TypeError)"
proof (intro conjI impI)
  assume "connection s \<noteq> None \<and> (json_parse E d = None \<or> json_parse E d = Some JNull)"
  then show "deliver_A E R s (Message d False) = warn s"
    by (auto simp: on_message_A_def header_field_def)
next
  assume "json_parse E d = Some msg \<and> header_field msg ''event'' = Inr e \<and>
    e \<noteq> Some (JStr ''task-started'') \<and> e \<noteq> Some (JStr ''task-finished'') \<and>
    e \<noteq> Some (JStr ''task-failed'')"
  then show "deliver_A E R s (Message d False) = s"
    by (simp add: on_message_A_def)
next
  assume "promise s = Pending \<and> promise (deliver_A E R s ev) \<noteq> Pending"
  then show "(\<exists>m. ev = Message m False \<and>
         (announces E m ''event'' ''task-finished'' \<or> announces E m ''event'' ''task-failed'')) \<or>
      (\<exists>m. ev = Error m) \<or> (\<exists>c r. ev = Close c r) \<or> ev = TimerFired"
    by (cases ev)
      (auto simp: announces_def handler_defs Let_def split: option.splits sum.splits if_splits)
next
  assume "connection s \<noteq> None \<and> json_parse E d = None"
  then show "deliver_B E R s (Message d False) = Inl SyntaxError"
    by (simp add: on_message_B_def)
next
  assume "connection s \<noteq> None \<and> json_parse E d = Some JNull"
  then show "deliver_B E R s (Message d False) = Inl TypeError"
    by (simp add: on_message_B_def header_field_def)
qed

theorem malformed_text_frame_witness:
  "deliver_A sample_env sample_request start_A (Message [99] False) = warn start_A \<and>
   promise (warn start_A) = Pending \<and> timer (warn start_A) = Some 60000 \<and>
   deliver_A sample_env sample_request start_A (Message [6] False) = warn start_A \<and>
   deliver_A sample_env sample_request start_A (Message [5] False) = start_A \<and>
   promise (deliver_A sample_env sample_request start_A (Message [2] False)) = Resolved [] \<and>
   deliver_B sample_env sample_request start_B (Message [99] False) = Inl SyntaxError \<and>
   deliver_B sample_env sample_request start_B (Message [6] False) = Inl TypeError \<and>
   run_B sample_env sample_request start_B [Open, Message [99] False, Message [12] False]
     = Inl SyntaxError"
proof -
  have conn_A: "connection start_A \<noteq> None" and conn_B: "connection start_B \<noteq> None"
    by (simp_all add: sample_defs generateId_def)
  have bad: "json_parse sample_env [99] = None" and null: "json_parse sample_env [6] = Some JNull"
    by (simp_all add: sample_defs)
  note inst_bad = malformed_text_frame [where E = sample_env and R = sample_request
      and d = "[99]" and ev = "Message [2] False" and msg = JNull and e = None]
  note inst_null = malformed_text_frame [where E = sample_env and R = sample_request
      and d = "[6]" and ev = "Message [2] False" and msg = JNull and e = None]
  from inst_bad [where s = start_A] conn_A bad
  have a1: "deliver_A sample_env sample_request start_A (Message [99] False) = warn start_A"
    by blast
  have a2: "promise (warn start_A) = Pending" "timer (warn start_A) = Some 60000"
    by (simp_all add: sample_defs warn_def generateId_def)
  from inst_null [where s = start_A] conn_A null
  have a3: "deliver_A sample_env sample_request start_A (Message [6] False) = warn start_A"
    by blast
  have info: "json_parse sample_env [5] = Some (control ''event'' ''result-generated'' []) \<and>
      header_field (control ''event'' ''result-generated'' []) ''event'' =
        Inr (Some (JStr ''result-generated'')) \<and>
      Some (JStr ''result-generated'') \<noteq> Some (JStr ''task-started'') \<and>
      Some (JStr ''result-generated'') \<noteq> Some (JStr ''task-finished'') \<and>
      Some (JStr ''result-generated'') \<noteq> Some (JStr ''task-failed'')"
    by (simp add: sample_env_def sample_parse_def control_def header_field_def)
  from malformed_text_frame [where E = sample_env and R = sample_request and d = "[5]"
      and msg = "control ''event'' ''result-generated'' []"
      and e = "Some (JStr ''result-generated'')" and s = start_A
      and ev = "Message [2] False"] info
  have a5: "deliver_A sample_env sample_request start_A (Message [5] False) = start_A"
    by blast
  have a4: "promise (deliver_A sample_env sample_request start_A (Message [2] False)) = Resolved []"
    by (simp add: sample_defs handler_defs Let_def)
  from inst_bad [where s = start_B] conn_B bad
  have b1: "deliver_B sample_env sample_request start_B (Message [99] False) = Inl SyntaxError"
    by blast
  from inst_null [where s = start_B] conn_B null
  have b2: "deliver_B sample_env sample_request start_B (Message [6] False) = Inl TypeError"
    by blast
  have "\<exists>s1. deliver_B sample_env sample_request start_B Open = Inr s1 \<and> connection s1 \<noteq> None"
    by (simp add: sample_defs handler_defs Let_def)
  then obtain s1 where s1: "deliver_B sample_env sample_request start_B Open = Inr s1"
    and c1: "connection s1 \<noteq> None" by blast
  from inst_bad [where s = s1] c1 bad
  have "deliver_B sample_env sample_request s1 (Message [99] False) = Inl SyntaxError"
    by blast
  with s1 have b3: "run_B sample_env sample_request start_B
      [Open, Message [99] False, Message [12] False] = Inl SyntaxError"
    by simp
  from a1 a2 a3 a5 a4 b1 b2 b3 show ?thesis by (intro conjI)
qed

section \<open>Transport errors and close\<close>



section \<open>The deadline\<close>




section \<open>The failure event\<close>







section \<open>The start message\<close>

lemma js_or_literal: "js_or a (Some d) = Some (case a of None \<Rightarrow> d | Some v \<Rightarrow> if truthy a then v else d)"
  by (cases a) (simp_all add: js_or_def)

text \<open>
  Against claim C8 as stated: the start message of profile B (\<^verbatim>\<open>StartSynthesis\<close>) has
  a header and a payload of voice, format, sample rate, volume, speech rate and pitch
  rate; it has no \<^verbatim>\<open>input\<close> field.
\<close>

theorem start_message_B_has_no_input_counterexample:
  "map_sum id (\<lambda>s. map payload_input (sent s))
      (run_B sample_env sample_request start_B [Open]) = Inr [None] \<and>
   map_sum id (\<lambda>s. map (\<lambda>m. js_get m ''payload'') (sent s))
      (run_B sample_env sample_request start_B [Open])
     = Inr [Some (JObj [(''voice'', JStr ''longxiaochun''), (''format'', JStr ''mp3''),
         (''sample_rate'', JNum 16000), (''volume'', JNum 50), (''speech_rate'', JNum 0),
         (''pitch_rate'', JNum 0)])]"
  by (simp add: sample_defs handler_defs Let_def payload_input_def StartSynthesis_def
      nls_header_def obj_def List.map_filter_simps)

text \<open>
  Claim C8, amended. In profile A the listener for \<^verbatim>\<open>open\<close> sends the run-task
  message, and that message always has \<^verbatim>\<open>payload.input = {}\<close>, whatever the voice, the
  model and the format are (also when all are left to their defaults). Profile B sends
  its \<^verbatim>\<open>StartSynthesis\<close> message on \<^verbatim>\<open>open\<close> as well; that message has no input
  field.
\<close>

theorem start_message_input_placeholder:
  "(connection s \<noteq> None \<longrightarrow>
      sent (deliver_A E R s Open) = sent s @ [runTask R (taskId s)]) \<and>
   payload_input (runTask R tid) = Some (JObj []) \<and>
   (truthy (js_or k (map_option JStr (DASHSCOPE_API_KEY E))) \<longrightarrow>
      map payload_input (sent (run_A E R (synthesizeSpeech_A E k) [Open])) = [Some (JObj [])]) \<and>
   map_sum id (\<lambda>s. map payload_input (sent s)) (run_B E R (synthesizeSpeech_B E token) [Open])
     = Inr [None]"
proof (intro conjI impI)
  assume "connection s \<noteq> None"
  then show "sent (deliver_A E R s Open) = sent s @ [runTask R (taskId s)]"
    by (simp add: on_open_A_def ws_send_def)
next
  have inp: "payload_input (runTask R t) = Some (JObj [])" for t
    by (simp add: payload_input_def runTask_def obj_def List.map_filter_simps js_or_literal)
  then show "payload_input (runTask R tid) = Some (JObj [])" .
  assume "truthy (js_or k (map_option JStr (DASHSCOPE_API_KEY E)))"
  then show "map payload_input (sent (run_A E R (synthesizeSpeech_A E k) [Open])) = [Some (JObj [])]"
    by (simp add: run_A_Cons run_A_Nil synthesizeSpeech_A_def new_session_def generateId_def
        Let_def on_open_A_def ws_send_def inp)
next
  have "payload_input (StartSynthesis E R mid tid) = None" for mid tid
    by (simp add: payload_input_def StartSynthesis_def obj_def List.map_filter_simps js_or_literal)
  then show "map_sum id (\<lambda>s. map payload_input (sent s))
      (run_B E R (synthesizeSpeech_B E token) [Open]) = Inr [None]"
    by (simp add: synthesizeSpeech_B_def new_session_def generateId_def Let_def on_open_B_def
        ws_send_def)
qed

theorem start_message_input_placeholder_witness:
  "connection start_A \<noteq> None \<and>
   sent (deliver_A sample_env sample_request start_A Open) =
     [runTask sample_request ''0123456789abcdef0123456789abcdef''] \<and>
   payload_input (runTask sample_request ''0123456789abcdef0123456789abcdef'') = Some (JObj []) \<and>
   truthy (js_or None (map_option JStr (DASHSCOPE_API_KEY sample_env))) \<and>
   map payload_input (sent (run_A sample_env sample_request start_A [Open])) = [Some (JObj [])]"
proof -
  note inst = start_message_input_placeholder [where E = sample_env and R = sample_request
      and k = None and s = start_A and tid = "''0123456789abcdef0123456789abcdef''",
      folded start_A_def]
  have c: "connection start_A \<noteq> None"
    by (simp add: sample_defs generateId_def)
  have t: "truthy (js_or None (map_option JStr (DASHSCOPE_API_KEY sample_env)))"
    by (simp add: sample_defs)
  have s0: "sent start_A = []" and tid: "taskId start_A = ''0123456789abcdef0123456789abcdef''"
    by (simp_all add: sample_defs generateId_def)
  from inst c have "sent (deliver_A sample_env sample_request start_A Open) =
      sent start_A @ [runTask sample_request (taskId start_A)]"
    by blast
  then have a: "sent (deliver_A sample_env sample_request start_A Open) =
      [runTask sample_request ''0123456789abcdef0123456789abcdef'']"
    by (simp only: s0 tid append_Nil)
  from inst have b: "payload_input (runTask sample_request ''0123456789abcdef0123456789abcdef'') =
      Some (JObj [])"
    by blast
  from inst t
  have d: "map payload_input (sent (run_A sample_env sample_request start_A [Open])) =
      [Some (JObj [])]"
    by blast
  from c a b t d show ?thesis by (intro conjI)
qed

section \<open>The missing key\<close>

text \<open>
  Claim C10. In profile A, when neither the caller's \<^verbatim>\<open>apikey\<close> nor the environment
  variable DASHSCOPE_API_KEY is present (or both are falsy), \<^verbatim>\<open>synthesizeSpeech\<close>
  rejects at once with the missing-credential error: no WebSocket is created, no timer
  is set, nothing is sent, and no event reaches the invocation afterwards.
\<close>

theorem missing_api_key_rejects_before_connecting:
  "\<not> truthy k \<and> \<not> truthy (map_option JStr (DASHSCOPE_API_KEY E)) \<longrightarrow>
     promise (synthesizeSpeech_A E k) = Rejected MissingApiKey \<and>
     connection (synthesizeSpeech_A E k) = None \<and>
     timer (synthesizeSpeech_A E k) = None \<and>
     sent (synthesizeSpeech_A E k) = [] \<and>
     run_A E R (synthesizeSpeech_A E k) evs = synthesizeSpeech_A E k"
proof
  assume h: "\<not> truthy k \<and> \<not> truthy (map_option JStr (DASHSCOPE_API_KEY E))"
  then have no_key: "\<not> truthy (js_or k (map_option JStr (DASHSCOPE_API_KEY E)))"
    by (simp add: js_or_def)
  from unwired_A_start [OF no_key] unwired_A_run [OF no_key, of R evs]
  show "promise (synthesizeSpeech_A E k) = Rejected MissingApiKey \<and>
     connection (synthesizeSpeech_A E k) = None \<and>
     timer (synthesizeSpeech_A E k) = None \<and>
     sent (synthesizeSpeech_A E k) = [] \<and>
     run_A E R (synthesizeSpeech_A E k) evs = synthesizeSpeech_A E k"
    by (simp add: reject_def new_session_def)
qed

theorem missing_api_key_rejects_before_connecting_witness:
  "\<not> truthy None \<and>
   \<not> truthy (map_option JStr (DASHSCOPE_API_KEY (sample_env\<lparr>DASHSCOPE_API_KEY := None\<rparr>))) \<and>
   promise (synthesizeSpeech_A (sample_env\<lparr>DASHSCOPE_API_KEY := None\<rparr>) None)
     = Rejected MissingApiKey \<and>
   connection (synthesizeSpeech_A (sample_env\<lparr>DASHSCOPE_API_KEY := None\<rparr>) None) = None \<and>
   promise (run_A (sample_env\<lparr>DASHSCOPE_API_KEY := None\<rparr>) sample_request
      (synthesizeSpeech_A (sample_env\<lparr>DASHSCOPE_API_KEY := None\<rparr>) None)
      [Open, Message [2] False]) = Rejected MissingApiKey"
proof -
  let ?E = "sample_env\<lparr>DASHSCOPE_API_KEY := None\<rparr>"
  note inst = missing_api_key_rejects_before_connecting [where E = ?E and k = None
      and R = sample_request and evs = "[Open, Message [2] False]"]
  have h1: "\<not> truthy None" by simp
  have h2: "\<not> truthy (map_option JStr (DASHSCOPE_API_KEY ?E))" by simp
  from inst h1 h2
  have r: "promise (synthesizeSpeech_A ?E None) = Rejected MissingApiKey"
    "connection (synthesizeSpeech_A ?E None) = None"
    "run_A ?E sample_request (synthesizeSpeech_A ?E None) [Open, Message [2] False] =
      synthesizeSpeech_A ?E None"
    by blast+
  from r(1) r(3)
  have "promise (run_A ?E sample_request (synthesizeSpeech_A ?E None) [Open, Message [2] False]) =
      Rejected MissingApiKey"
    by (simp only:)
  with h1 h2 r(1) r(2) show ?thesis by (intro conjI)
qed

section \<open>Validation in the route\<close>





section \<open>The token cache\<close>

lemma bitlen_numeral:
  "bitlen (numeral (Num.Bit0 n)) = bitlen (numeral n) + 1"
  "bitlen (numeral (Num.Bit1 n)) = bitlen (numeral n) + 1"
  "bitlen 1 = 1"
  by (subst compute_bitlen, simp)+

lemmas fl_eval = fl_def nearest_double_def ilog2_def round_half_even_def bitlen_numeral Let_def

lemmas token_defs =
  token_run_def token_world0_def tokenCache0_def getNlsToken_def token_response_def
  refusal_def js_number_def sample_env_def sample_parse_def

lemma round_half_even_one: "round_half_even n 1 = n"
  by (simp add: round_half_even_def)

lemma ilog2_int:
  assumes "0 < m"
  shows "ilog2 m 1 = bitlen m - 1" and "0 \<le> bitlen m - 1" and "2 ^ nat (bitlen m - 1) \<le> m"
proof -
  from assms have pos: "1 \<le> bitlen m" by (auto simp: bitlen_alt_def)
  then show "0 \<le> bitlen m - 1" by simp
  from bitlen_bounds [OF assms] show low: "2 ^ nat (bitlen m - 1) \<le> m" by simp
  from pos low show "ilog2 m 1 = bitlen m - 1"
    by (simp add: ilog2_def bitlen_numeral)
qed

lemma nearest_double_int:
  assumes "0 < m" and "m \<le> 2 ^ 53"
  shows "nearest_double (of_int m) = of_int m"
proof -
  let ?k = "bitlen m - 1"
  note il = ilog2_int [OF assms(1)]
  have "(2::int) ^ nat ?k \<le> 2 ^ 53" using il(3) assms(2) by linarith
  then have "nat ?k \<le> 53" by (rule power_le_imp_le_exp [rotated]) simp
  then have k53: "?k \<le> 53" by linarith
  have mx: "max ?k (- 1022) = ?k" using il(2) by simp
  show ?thesis
  proof (cases "?k \<le> 52")
    case True
    then show ?thesis
      by (simp add: nearest_double_def il(1) mx round_half_even_one Let_def)
  next
    case False
    with k53 have k: "?k = 53" by linarith
    with il(3) assms(2) have m: "m = 2 ^ 53" by simp
    have "nearest_double (of_int m) =
        of_int (round_half_even m (2 ^ nat (?k - 52))) * 2 ^ nat (?k - 52)"
      using False by (simp add: nearest_double_def il(1) mx Let_def)
    also have "\<dots> = of_int m"
      unfolding k by (simp add: m round_half_even_def)
    finally show ?thesis .
  qed
qed

lemma fl_exact_int:
  assumes "\<bar>n\<bar> \<le> 2 ^ 53"
  shows "fl (of_int n) = Finite (of_int n)"
proof (cases "n = 0")
  case True
  then show ?thesis by (simp add: fl_def)
next
  case False
  then have pos: "0 < \<bar>n\<bar>" by simp
  have abs: "\<bar>rat_of_int n\<bar> = of_int \<bar>n\<bar>" by simp
  have nd: "nearest_double \<bar>rat_of_int n\<bar> = of_int \<bar>n\<bar>"
    unfolding abs using pos assms by (rule nearest_double_int)
  have small: "\<not> (2::rat) ^ 1024 \<le> of_int \<bar>n\<bar>"
  proof -
    have "rat_of_int \<bar>n\<bar> \<le> 2 ^ 53" using assms
      by (metis of_int_le_iff of_int_numeral of_int_power)
    also have "\<dots> < 2 ^ 1024" by (simp add: power_strict_increasing_iff)
    finally show ?thesis by simp
  qed
  from False show ?thesis
    unfolding fl_def Let_def nd using small
    by (cases "0 < n") (simp_all add: abs_if)
qed

lemma early_expiry:
  assumes "0 \<le> e" and "e * 1000 \<le> 2 ^ 53"
  shows "js_minus (js_times (Finite (of_int e)) (Finite 1000)) (Finite 60000) =
    Finite (of_int (e * 1000 - 60000))"
proof -
  have "\<bar>e * 1000\<bar> \<le> 2 ^ 53" using assms by simp
  from fl_exact_int [OF this]
  have prod: "js_times (Finite (of_int e)) (Finite 1000) = Finite (of_int (e * 1000))"
    by simp
  have "\<bar>e * 1000 - 60000\<bar> \<le> 2 ^ 53" using assms by simp
  from fl_exact_int [OF this]
  have "js_minus (Finite (of_int (e * 1000))) (Finite 60000) =
      Finite (of_int (e * 1000 - 60000))"
    by simp
  with prod show ?thesis by simp
qed

text \<open>
  Against claim C9 as stated. Two refreshes can be in flight at once; when the response
  of the second arrives between two calls that both fall in the validity window of the
  token cached by the first, the calls return different tokens, though neither issues a
  request. And the cached expiry is computed in doubles: for an expiry of \<open>2 ^ 53\<close>
  seconds it is not the backend's expiry less 60 seconds.
\<close>

theorem refresh_in_flight_and_rounding_counterexample:
  "returned (token_run sample_env token_world0
      [Call 0, Call 1, Response (ResponseEnd [20]), Call 1000000,
       Response (ResponseEnd [21]), Call 1500000])
     = [Inr (Some (JStr ''tok-1'')), Inr (Some (JStr ''tok-1'')),
        Inr (Some (JStr ''tok-2'')), Inr (Some (JStr ''tok-2''))] \<and>
   expireTime (cache (token_run sample_env token_world0
      [Call 0, Call 1, Response (ResponseEnd [20])])) = Finite 1940000 \<and>
   expireTime (snd (token_response sample_env (ResponseEnd [22]) tokenCache0))
     = Finite 9007199254740931584 \<and>
   (9007199254740992 :: rat) * 1000 - 60000 = 9007199254740932000"
  by (simp add: token_defs fl_eval)

text \<open>
  Claim C9, amended. Two calls of \<^verbatim>\<open>getNlsToken\<close> with no response arriving between
  them, both while the cache holds a token and the time is before the cached expiry,
  return that same token, issue no request and leave the cache as it is. A response
  that carries a token whose expiry is a whole number \<open>e\<close> of seconds, not negative and
  with \<open>e * 1000\<close> at most \<open>2 ^ 53\<close>, caches it with the expiry \<open>e * 1000 - 60000\<close>
  milliseconds, one minute early. A call at or after the cached expiry issues a
  request.
\<close>

theorem token_cache_reuse_and_early_expiry:
  "(truthy (cache_id (cache w)) \<and>
    js_less (Finite (of_int now_a)) (expireTime (cache w)) \<and>
    js_less (Finite (of_int now_b)) (expireTime (cache w)) \<longrightarrow>
      token_run E w [Call now_a, Call now_b] =
        w\<lparr>returned := returned w @ [Inr (cache_id (cache w)), Inr (cache_id (cache w))]\<rparr>) \<and>
   (json_parse E data = Some result \<and> js_get result ''Token'' = Some t \<and> truthy (Some t) \<and>
    js_get t ''ExpireTime'' = Some (JNum (of_int e)) \<and> 0 \<le> e \<and> e * 1000 \<le> 2 ^ 53 \<longrightarrow>
      token_response E (ResponseEnd data) c =
        (Inr (js_get t ''Id''),
         \<lparr>cache_id = js_get t ''Id'', expireTime = Finite (of_int (e * 1000 - 60000))\<rparr>)) \<and>
   (expireTime (cache w) = Finite x \<and> x \<le> of_int now \<longrightarrow>
      token_step E w (Call now) =
        w\<lparr>in_flight := in_flight w + 1, requests := requests w + 1\<rparr>)"
proof (intro conjI impI)
  assume "truthy (cache_id (cache w)) \<and>
    js_less (Finite (of_int now_a)) (expireTime (cache w)) \<and>
    js_less (Finite (of_int now_b)) (expireTime (cache w))"
  then show "token_run E w [Call now_a, Call now_b] =
        w\<lparr>returned := returned w @ [Inr (cache_id (cache w)), Inr (cache_id (cache w))]\<rparr>"
    by (simp add: token_run_def getNlsToken_def)
next
  assume h: "json_parse E data = Some result \<and> js_get result ''Token'' = Some t \<and>
    truthy (Some t) \<and> js_get t ''ExpireTime'' = Some (JNum (of_int e)) \<and> 0 \<le> e \<and>
    e * 1000 \<le> 2 ^ 53"
  then have "result \<noteq> JNull" by auto
  moreover from h have "js_minus (js_times (Finite (of_int e)) (Finite 1000)) (Finite 60000) =
      Finite (of_int (e * 1000 - 60000))"
    using early_expiry [of e] by blast
  ultimately show "token_response E (ResponseEnd data) c =
        (Inr (js_get t ''Id''),
         \<lparr>cache_id = js_get t ''Id'', expireTime = Finite (of_int (e * 1000 - 60000))\<rparr>)"
    using h by (cases result) (simp_all add: token_response_def js_number_def)
next
  assume "expireTime (cache w) = Finite x \<and> x \<le> of_int now"
  then show "token_step E w (Call now) =
        w\<lparr>in_flight := in_flight w + 1, requests := requests w + 1\<rparr>"
    by (simp add: getNlsToken_def)
qed

theorem token_cache_reuse_and_early_expiry_witness:
  "token_response sample_env (ResponseEnd [20]) tokenCache0 =
     (Inr (Some (JStr ''tok-1'')),
      \<lparr>cache_id = Some (JStr ''tok-1''), expireTime = Finite 1940000\<rparr>) \<and>
   token_run sample_env
      \<lparr>cache = \<lparr>cache_id = Some (JStr ''tok-1''), expireTime = Finite 1940000\<rparr>,
       in_flight = 0, requests = 1, returned = []\<rparr>
      [Call 1500000, Call 1939999] =
     \<lparr>cache = \<lparr>cache_id = Some (JStr ''tok-1''), expireTime = Finite 1940000\<rparr>,
      in_flight = 0, requests = 1,
      returned = [Inr (Some (JStr ''tok-1'')), Inr (Some (JStr ''tok-1''))]\<rparr> \<and>
   token_step sample_env
      \<lparr>cache = \<lparr>cache_id = Some (JStr ''tok-1''), expireTime = Finite 1940000\<rparr>,
       in_flight = 0, requests = 1, returned = []\<rparr>
      (Call 1940000) =
     \<lparr>cache = \<lparr>cache_id = Some (JStr ''tok-1''), expireTime = Finite 1940000\<rparr>,
      in_flight = 1, requests = 2, returned = []\<rparr>"
proof -
  let ?c = "\<lparr>cache_id = Some (JStr ''tok-1''), expireTime = Finite 1940000\<rparr>"
  let ?w = "\<lparr>cache = ?c, in_flight = 0, requests = 1, returned = []\<rparr>"
  let ?t = "JObj [(''Id'', JStr ''tok-1''), (''ExpireTime'', JNum 2000)]"
  note inst = token_cache_reuse_and_early_expiry [where E = sample_env and w = ?w
      and now_a = 1500000 and now_b = 1939999 and data = "[20]"
      and result = "JObj [(''Token'', ?t)]" and t = ?t and e = 2000 and c = tokenCache0
      and x = 1940000 and now = 1940000]
  have window: "truthy (cache_id (cache ?w)) \<and>
      js_less (Finite (of_int 1500000)) (expireTime (cache ?w)) \<and>
      js_less (Finite (of_int 1939999)) (expireTime (cache ?w))"
    by simp
  have reply: "json_parse sample_env [20] = Some (JObj [(''Token'', ?t)]) \<and>
      js_get (JObj [(''Token'', ?t)]) ''Token'' = Some ?t \<and> truthy (Some ?t) \<and>
      js_get ?t ''ExpireTime'' = Some (JNum (of_int 2000)) \<and> (0::int) \<le> 2000 \<and>
      (2000::int) * 1000 \<le> 2 ^ 53"
    by (simp add: sample_env_def sample_parse_def)
  have late: "expireTime (cache ?w) = Finite 1940000 \<and> (1940000::rat) \<le> of_int 1940000"
    by simp
  from inst window
  have "token_run sample_env ?w [Call 1500000, Call 1939999] =
      ?w\<lparr>returned := returned ?w @ [Inr (cache_id (cache ?w)), Inr (cache_id (cache ?w))]\<rparr>"
    by blast
  then have r2: "token_run sample_env ?w [Call 1500000, Call 1939999] =
      \<lparr>cache = ?c, in_flight = 0, requests = 1,
       returned = [Inr (Some (JStr ''tok-1'')), Inr (Some (JStr ''tok-1''))]\<rparr>"
    by simp
  from inst reply
  have "token_response sample_env (ResponseEnd [20]) tokenCache0 =
      (Inr (js_get ?t ''Id''),
       \<lparr>cache_id = js_get ?t ''Id'', expireTime = Finite (of_int (2000 * 1000 - 60000))\<rparr>)"
    by blast
  then have r1: "token_response sample_env (ResponseEnd [20]) tokenCache0 =
      (Inr (Some (JStr ''tok-1'')), ?c)"
    by simp
  from inst late
  have "token_step sample_env ?w (Call 1940000) =
      ?w\<lparr>in_flight := in_flight ?w + 1, requests := requests ?w + 1\<rparr>"
    by blast
  then have r3: "token_step sample_env ?w (Call 1940000) =
      \<lparr>cache = ?c, in_flight = 1, requests = 2, returned = []\<rparr>"
    by simp
  from r1 r2 r3 show ?thesis by (intro conjI)
qed

end
